theory Spec2Isabelle
  imports Complex_Main
begin

section \<open>Errors\<close>

text \<open>
  The error classes the modelled code throws.  Each carries its message.  \<open>Error\<close> is
  the plain JavaScript error; \<open>OtherError\<close> stands for any error raised by an external
  collaborator that is none of the named classes.
\<close>

datatype error =
    Error string
  | ImplementationError string
  | DiscoveryError string
  | NoResponseTimeoutError string
  | PairRetransmissionLimitReachedError string
  | RetransmissionLimitReachedError string
  | NoChannelError string
  | IncapacitatedDependencyError string
  | UninitializedDependencyError string
  | OtherError string

fun message :: "error \<Rightarrow> string" where
  "message (Error m) = m"
| "message (ImplementationError m) = m"
| "message (DiscoveryError m) = m"
| "message (NoResponseTimeoutError m) = m"
| "message (PairRetransmissionLimitReachedError m) = m"
| "message (RetransmissionLimitReachedError m) = m"
| "message (NoChannelError m) = m"
| "message (IncapacitatedDependencyError m) = m"
| "message (UninitializedDependencyError m) = m"
| "message (OtherError m) = m"

section \<open>TLV float schema (part 003)\<close>

text \<open>
  A JavaScript number is a double: a finite value, one of the two infinities, or NaN.
  Only the ordering is used by \<open>validate\<close>; a finite double is a real number, and both
  zeros compare equal, so \<open>Fin\<close> over the reals has the comparisons of the code.
\<close>

datatype number = NaN | NegInfinity | Fin real | PosInfinity

text \<open>The operator \<open><\<close> of JavaScript on numbers: false as soon as one side is NaN.\<close>

fun lt :: "number \<Rightarrow> number \<Rightarrow> bool" where
  "lt NaN _ = False"
| "lt _ NaN = False"
| "lt NegInfinity NegInfinity = False"
| "lt NegInfinity _ = True"
| "lt (Fin x) (Fin y) = (x < y)"
| "lt (Fin _) PosInfinity = True"
| "lt (Fin _) NegInfinity = False"
| "lt PosInfinity _ = False"

text \<open>The operator \<open>></\<close>: \<open>a > b\<close> is \<open>b < a\<close>.\<close>

definition gt :: "number \<Rightarrow> number \<Rightarrow> bool" where
  "gt a b = lt b a"

datatype TlvLength = FourBytes | EightBytes

record FloatSchema =
  schema_min :: "number option"
  schema_max :: "number option"
  precision :: TlvLength

text \<open>
  \<open>FloatSchema.validate\<close>.  The first parameter is the conversion of a number to text that
  a template literal applies (\<open>undefined\<close> bounds are never printed: each message is
  guarded by the test that its bound is defined, except that the second message prints
  \<open>this.min\<close>, which may be undefined and then prints as the word undefined).
\<close>

definition show_bound :: "(number \<Rightarrow> string) \<Rightarrow> number option \<Rightarrow> string" where
  "show_bound render b = (case b of None \<Rightarrow> ''undefined'' | Some n \<Rightarrow> render n)"

definition validate :: "(number \<Rightarrow> string) \<Rightarrow> FloatSchema \<Rightarrow> number \<Rightarrow> error + unit" where
  "validate render this v =
     (if schema_min this \<noteq> None \<and> lt v (the (schema_min this)) then
        Inl (Error (''Invalid value: '' @ render v @ '' is below the minimum, ''
                    @ show_bound render (schema_min this) @ ''.''))
      else if schema_max this \<noteq> None \<and> gt v (the (schema_max this)) then
        Inl (Error (''Invalid value: '' @ render v @ '' is above the maximum, ''
                    @ show_bound render (schema_min this) @ ''.''))
      else Inr ())"

text \<open>The schema and the rendering used to run \<open>validate\<close> on a concrete input.\<close>

definition schema_0_10 :: FloatSchema where
  "schema_0_10 = \<lparr>schema_min = Some (Fin 0), schema_max = Some (Fin 10), precision = EightBytes\<rparr>"

definition render_small :: "number \<Rightarrow> string" where
  "render_small n = (if n = Fin 0 then ''0'' else if n = Fin 10 then ''10''
                     else if n = Fin 11 then ''11'' else ''?'')"

section \<open>Asynchronous construction (AsyncConstruction.ts)\<close>

datatype LifecycleStatus = Initializing | Active | Incapacitated | Destroyed

text \<open>
  The closure variables of \<open>AsyncConstruction\<close>.  \<open>promise\<close> is undefined, the tracked
  promise of the initializer, or the placeholder made by \<open>then\<close> before \<open>start\<close>;
  \<open>placeholder\<close> says that \<open>placeholderResolve\<close> and \<open>placeholderReject\<close> are set;
  \<open>cancel_hook\<close> says that the owner passed a \<open>cancel\<close> function.  \<open>pending\<close> is not a
  variable of the source: it records that the promise returned by the initializer has not
  settled yet, so that its two callbacks run at most once, as a promise guarantees.
\<close>

datatype promise_kind = Placeholder | Tracked

text \<open>
  JavaScript throws and rejects with any value.  \<open>assert\<close> tests the saved value for
  truthiness, so a thrown value is either falsy (\<open>undefined\<close>, \<open>null\<close>, \<open>0\<close>, the empty
  string, \<open>false\<close>, NaN) or a truthy value, here an error.
\<close>

datatype thrown = Falsy | Thrown error

record AsyncConstruction =
  promise :: "promise_kind option"
  error :: "thrown option"
  started :: bool
  ready :: bool
  canceled :: bool
  placeholder :: bool
  status :: LifecycleStatus
  cancel_hook :: bool
  pending :: bool

text \<open>What calling the initializer does: return, throw, or return a promise.\<close>

datatype initialization = Returns | Throws thrown | ReturnsPromise

datatype settlement = Fulfilled | Rejected thrown

definition initial :: "bool \<Rightarrow> AsyncConstruction" where
  "initial hook = \<lparr>promise = None, error = None, started = False, ready = False,
     canceled = False, placeholder = False, status = Initializing, cancel_hook = hook,
     pending = False\<rparr>"

text \<open>\<open>start\<close>: the error thrown, if any, and the variables afterwards.\<close>

definition start :: "initialization \<Rightarrow> AsyncConstruction \<Rightarrow> thrown option \<times> AsyncConstruction" where
  "start initializer s =
     (if started s then (Some (Thrown (ImplementationError ''Initialization has already started'')), s)
      else
        let s1 = s\<lparr>started := True\<rparr> in
        case initializer of
          Throws e \<Rightarrow> (Some e, s1\<lparr>error := Some e, ready := True, status := Incapacitated\<rparr>)
        | ReturnsPromise \<Rightarrow>
            (None, (if promise s1 \<noteq> None then s1\<lparr>ready := False\<rparr>
                    else s1\<lparr>ready := False, promise := Some Tracked\<rparr>)\<lparr>pending := True\<rparr>)
        | Returns \<Rightarrow> (None, s1\<lparr>ready := True, status := Active\<rparr>))"

text \<open>The two callbacks that \<open>start\<close> attaches to the promise of the initializer.\<close>

definition settle :: "settlement \<Rightarrow> AsyncConstruction \<Rightarrow> AsyncConstruction" where
  "settle r s =
     (if \<not> pending s then s
      else case r of
          Fulfilled \<Rightarrow> s\<lparr>ready := True, status := Active, pending := False\<rparr>
        | Rejected e \<Rightarrow>
            s\<lparr>error := Some e, ready := True, status := Incapacitated, pending := False\<rparr>)"

definition cancel :: "AsyncConstruction \<Rightarrow> AsyncConstruction" where
  "cancel s =
     (if ready s \<or> canceled s then s
      else if cancel_hook s then s\<lparr>canceled := True, status := Destroyed\<rparr>
      else s)"

text \<open>\<open>then\<close> (and \<open>catch\<close>, \<open>finally\<close>, which call it): the only change to the variables.\<close>

definition then_await :: "AsyncConstruction \<Rightarrow> AsyncConstruction" where
  "then_await s =
     (if \<not> started s then s\<lparr>promise := Some Placeholder, placeholder := True\<rparr> else s)"

text \<open>
  \<open>assert\<close>: throws or returns, and changes nothing.  The first test is \<open>if (error)\<close>:
  it passes only for a saved value that is truthy.  The parameter renders the saved value
  in the message.
\<close>

definition truthy :: "thrown option \<Rightarrow> bool" where
  "truthy v = (case v of Some (Thrown _) \<Rightarrow> True | _ \<Rightarrow> False)"

definition assert :: "(thrown \<Rightarrow> string) \<Rightarrow> AsyncConstruction \<Rightarrow> error option" where
  "assert render s =
     (if truthy (error s) then
        Some (IncapacitatedDependencyError
               (''Resource unavailable because of initialization failure: '' @ render (the (error s))))
      else if \<not> ready s then
        Some (UninitializedDependencyError ''Resource unavailable because initialization is ongoing'')
      else if canceled s then
        Some (UninitializedDependencyError ''Resource unavailable because initialization was canceled'')
      else None)"

text \<open>
  What can happen to a handle, in any order: a call of \<open>start\<close>, the settling of the
  initializer's promise, a call of \<open>cancel\<close>, a call of \<open>then\<close>.  The constructor with an
  initializer is \<open>initial\<close> followed by \<open>Start\<close>.
\<close>

datatype event = Start initialization | Settle settlement | Cancel | Then

fun step :: "event \<Rightarrow> AsyncConstruction \<Rightarrow> AsyncConstruction" where
  "step (Start i) s = snd (start i s)"
| "step (Settle r) s = settle r s"
| "step Cancel s = cancel s"
| "step Then s = then_await s"

fun run :: "event list \<Rightarrow> AsyncConstruction \<Rightarrow> AsyncConstruction" where
  "run [] s = s"
| "run (e # es) s = run es (step e s)"

text \<open>What holds of the variables of every handle, whatever happened to it.\<close>

definition lifecycle_inv :: "AsyncConstruction \<Rightarrow> bool" where
  "lifecycle_inv s = ((\<not> started s \<longrightarrow> \<not> ready s \<and> \<not> pending s)
          \<and> (status s = Active \<or> status s = Incapacitated \<longrightarrow> ready s \<and> \<not> pending s))"

section \<open>Peer address interning (part 002)\<close>

type_synonym FabricIndex = nat
type_synonym NodeId = nat

record PeerAddress =
  fabricIndex :: FabricIndex
  nodeId :: NodeId

text \<open>
  Interning is about object identity, so address objects live in a heap and are named by
  references.  An object has the two fields and, when \<open>PeerAddress\<close> made it, the
  \<open>interned\<close> symbol.  \<open>internedAddresses\<close> is the two-level table of the module: fabric
  index, then node id.  \<open>nextRef\<close> is the next unused reference.
\<close>

record AddressObject = PeerAddress +
  interned :: bool

type_synonym ref = nat

record InternState =
  heap :: "ref \<rightharpoonup> AddressObject"
  internedAddresses :: "FabricIndex \<rightharpoonup> (NodeId \<rightharpoonup> ref)"
  nextRef :: ref

text \<open>
  The function \<open>PeerAddress\<close>.  Its argument is a reference to an object; a reference that
  names no object cannot be passed in the source, and is returned as it is here.
\<close>

definition PeerAddress :: "ref \<Rightarrow> InternState \<Rightarrow> ref \<times> InternState" where
  "PeerAddress address s =
     (case heap s address of
        None \<Rightarrow> (address, s)
      | Some a \<Rightarrow>
          if interned a then (address, s)
          else
            let (internedFabric, s1) =
                  (case internedAddresses s (fabricIndex a) of
                     None \<Rightarrow> (Map.empty,
                              s\<lparr>internedAddresses := (internedAddresses s)(fabricIndex a \<mapsto> Map.empty)\<rparr>)
                   | Some m \<Rightarrow> (m, s))
            in case internedFabric (nodeId a) of
                 Some internedAddress \<Rightarrow> (internedAddress, s1)
               | None \<Rightarrow>
                   let r = nextRef s1;
                       obj = \<lparr>fabricIndex = fabricIndex a, nodeId = nodeId a, interned = True\<rparr>
                   in (r, s1\<lparr>heap := (heap s1)(r \<mapsto> obj),
                             internedAddresses :=
                               (internedAddresses s1)(fabricIndex a \<mapsto> internedFabric(nodeId a \<mapsto> r)),
                             nextRef := Suc r\<rparr>))"











section \<open>Peer set (part 001)\<close>

subsection \<open>Rendering of a peer address\<close>

text \<open>
  \<open>toString\<close> of an interned address: \<open>peer@<fabricIndex>:<nodeId>\<close>, the node id in
  hexadecimal with prefix \<open>0x\<close> above \<open>0xffff\<close> and in decimal otherwise.
\<close>

definition digit_char :: "nat \<Rightarrow> char" where
  "digit_char d = ''0123456789abcdef'' ! d"

fun show_dec :: "nat \<Rightarrow> string" where
  "show_dec n = (if n < 10 then [digit_char n] else show_dec (n div 10) @ [digit_char (n mod 10)])"

fun show_hex :: "nat \<Rightarrow> string" where
  "show_hex n = (if n < 16 then [digit_char n] else show_hex (n div 16) @ [digit_char (n mod 16)])"

declare show_dec.simps [simp del] show_hex.simps [simp del]

definition toString :: "PeerAddress \<Rightarrow> string" where
  "toString this =
     (let nodeStr = (if nodeId this > 0xffff then ''0x'' @ show_hex (nodeId this)
                     else show_dec (nodeId this))
      in ''peer@'' @ show_dec (fabricIndex this) @ '':'' @ nodeStr)"


subsection \<open>Data\<close>

text \<open>
  In the peer set every address is interned before it is used as a key, so a peer address
  is a value here and equality of values stands for identity of interned objects.
\<close>

record ServerAddressIp =
  ip :: string
  port :: nat

text \<open>
  The recognised hints of the discovery data.  A property of a JavaScript object is
  absent (\<open>None\<close>), present with the value \<open>undefined\<close> (\<open>Some None\<close>) or present with a
  number; reading a property gives \<open>undefined\<close> in the first two cases.
\<close>

record DiscoveryData =
  SII :: "nat option option"
  SAI :: "nat option option"
  SAT :: "nat option option"

definition read_property :: "'a option option \<Rightarrow> 'a option" where
  "read_property p = (case p of None \<Rightarrow> None | Some v \<Rightarrow> v)"

record OperationalPeer =
  address :: PeerAddress
  operationalAddress :: "ServerAddressIp option"
  discoveryData :: "DiscoveryData option"

text \<open>The enum \<open>NodeDiscoveryType\<close>; \<open>None\<close> is written \<open>NoneDiscovery\<close>.  \<open>enum_value\<close> is its number.\<close>

datatype NodeDiscoveryType =
  NoneDiscovery | RetransmissionDiscovery | TimedDiscovery | FullDiscovery

fun enum_value :: "NodeDiscoveryType \<Rightarrow> nat" where
  "enum_value NoneDiscovery = 0"
| "enum_value RetransmissionDiscovery = 1"
| "enum_value TimedDiscovery = 2"
| "enum_value FullDiscovery = 3"

record DiscoveryOptions =
  discoveryType :: "NodeDiscoveryType option"
  timeoutSeconds :: "nat option"
  optionsDiscoveryData :: "DiscoveryData option"

text \<open>
  A pending-channel producer is a closure \<open>() => Promise<MessageChannel>\<close>.  There are two
  in the source: the promise resolved by the reconnection polling timer, and the mDNS
  discovery followed by pairing.  Each is represented by what it captured.
\<close>

datatype Timer = PeriodicTimer string nat

datatype producer =
    ReconnectionPolling PeerAddress ServerAddressIp "DiscoveryData option"
  | OperationalDiscovery PeerAddress "nat option" "DiscoveryData option"

record RunningDiscovery =
  type :: NodeDiscoveryType
  promises :: "producer list option"
  timer :: "Timer option"

record SessionParameters =
  idleIntervalMs :: "nat option"
  activeIntervalMs :: "nat option"
  activeThresholdMs :: "nat option"

datatype Session = InsecureSession SessionParameters | SecureSession nat

datatype TransportChannel = UdpChannel ServerAddressIp

record MessageChannel =
  channel :: TransportChannel
  session :: Session

record NodeCachedData =
  attributeValues :: "(string \<times> string) list"
  clusterDataVersions :: "(string \<times> nat) list"
  maxEventNumber :: "nat option"

record DiscoveredDevice =
  addresses :: "ServerAddressIp list"
  deviceData :: DiscoveryData

text \<open>
  The collaborators of the peer set are not part of the modelled sources.  Their state
  is part of the state below.  Every call that asks a collaborator to do something is
  appended to \<open>calls\<close>; a query (\<open>scannerFor\<close>, \<open>fabricFor\<close>, \<open>interfaceFor\<close>,
  \<open>getChannel\<close>, \<open>getDiscoveredOperationalDevice\<close>, \<open>findResumptionRecordByAddress\<close>) is
  answered from the context or the state and is not logged.
  \<open>Context\<close> holds what they answer: whether an mDNS scanner exists, the fabric of an
  address, the address family of a literal, whether the interface of a family is open,
  the outcome of opening a channel, the outcome of CASE (the session and whether it was
  resumed), which awaited call throws (\<open>failing\<close>), and whether the two
  retransmission-limit error classes extend \<open>NoResponseTimeoutError\<close>.
\<close>

type_synonym Fabric = nat

datatype call =
    CancelOperationalDeviceDiscovery Fabric NodeId "bool option"
  | StartTimer Timer
  | OpenChannel ServerAddressIp
  | CreateInsecureSession SessionParameters
  | InitiateExchangeWithChannel MessageChannel
  | CasePair Fabric NodeId "nat option"
  | CloseExchange
  | DestroySession Session
  | SetChannel PeerAddress MessageChannel
  | RemoveAllSessionsForNode PeerAddress "bool option"
  | RemoveAllNodeChannels PeerAddress
  | DeleteResumptionRecord PeerAddress
  | StoreDeletePeer PeerAddress
  | StoreUpdatePeer OperationalPeer

record Context =
  scannerPresent :: bool
  fabricFor :: "PeerAddress \<Rightarrow> Fabric"
  isIPv6 :: "string \<Rightarrow> bool"
  interfaceFor :: "string \<Rightarrow> bool"
  openChannel :: "ServerAddressIp \<Rightarrow> error + TransportChannel"
  casePair :: "PeerAddress \<Rightarrow> ServerAddressIp \<Rightarrow> nat option \<Rightarrow> error + (Session \<times> bool)"
  failing :: "call \<Rightarrow> error option"
  limitErrorsAreTimeouts :: bool

record PeerSet =
  peers :: "OperationalPeer list"
  peersByAddress :: "PeerAddress \<rightharpoonup> OperationalPeer"
  runningPeerDiscoveries :: "PeerAddress \<rightharpoonup> RunningDiscovery"
  nodeCachedData :: "PeerAddress \<rightharpoonup> NodeCachedData"
  channels :: "PeerAddress \<rightharpoonup> MessageChannel"
  sessions :: "PeerAddress \<Rightarrow> Session list"
  resumptionRecords :: "PeerAddress \<rightharpoonup> SessionParameters"
  store :: "PeerAddress \<rightharpoonup> OperationalPeer"
  discovered :: "Fabric \<times> NodeId \<rightharpoonup> DiscoveredDevice"
  calls :: "call list"

subsection \<open>Collaborators\<close>

definition instanceofNoResponseTimeoutError :: "Context \<Rightarrow> error \<Rightarrow> bool" where
  "instanceofNoResponseTimeoutError ctx e =
     (case e of
        NoResponseTimeoutError _ \<Rightarrow> True
      | PairRetransmissionLimitReachedError _ \<Rightarrow> limitErrorsAreTimeouts ctx
      | RetransmissionLimitReachedError _ \<Rightarrow> limitErrorsAreTimeouts ctx
      | _ \<Rightarrow> False)"

definition instanceofDiscoveryError :: "error \<Rightarrow> bool" where
  "instanceofDiscoveryError e = (case e of DiscoveryError _ \<Rightarrow> True | _ \<Rightarrow> False)"

text \<open>
  Modelled from the spec: the channel manager, the session manager and the peer store,
  which are not under the modelled sources.  An awaited call is logged, then throws when
  the context says so and has its effect otherwise: \<open>removeAllSessionsForNode\<close> and
  \<open>removeAllNodeChannels\<close> remove what is registered for the address, \<open>setChannel\<close>
  registers a channel, \<open>deleteResumptionRecord\<close>, \<open>deletePeer\<close> and \<open>updatePeer\<close>
  change the records they name.  \<open>notify\<close> logs a call that is not awaited.
\<close>

definition invoke :: "Context \<Rightarrow> call \<Rightarrow> (PeerSet \<Rightarrow> PeerSet) \<Rightarrow> PeerSet \<Rightarrow> error option \<times> PeerSet" where
  "invoke ctx c effect s =
     (let s1 = s\<lparr>calls := calls s @ [c]\<rparr>
      in case failing ctx c of Some e \<Rightarrow> (Some e, s1) | None \<Rightarrow> (None, effect s1))"

definition notify :: "call \<Rightarrow> PeerSet \<Rightarrow> PeerSet" where
  "notify c s = s\<lparr>calls := calls s @ [c]\<rparr>"

definition removeAllSessionsForNode :: "Context \<Rightarrow> PeerAddress \<Rightarrow> bool option \<Rightarrow> PeerSet \<Rightarrow> error option \<times> PeerSet" where
  "removeAllSessionsForNode ctx addr hard =
     invoke ctx (RemoveAllSessionsForNode addr hard) (\<lambda>s. s\<lparr>sessions := (sessions s)(addr := [])\<rparr>)"

definition removeAllNodeChannels :: "Context \<Rightarrow> PeerAddress \<Rightarrow> PeerSet \<Rightarrow> error option \<times> PeerSet" where
  "removeAllNodeChannels ctx addr =
     invoke ctx (RemoveAllNodeChannels addr) (\<lambda>s. s\<lparr>channels := (channels s)(addr := None)\<rparr>)"

definition setChannel :: "Context \<Rightarrow> PeerAddress \<Rightarrow> MessageChannel \<Rightarrow> PeerSet \<Rightarrow> error option \<times> PeerSet" where
  "setChannel ctx addr ch =
     invoke ctx (SetChannel addr ch) (\<lambda>s. s\<lparr>channels := (channels s)(addr \<mapsto> ch)\<rparr>)"

definition deleteResumptionRecord :: "Context \<Rightarrow> PeerAddress \<Rightarrow> PeerSet \<Rightarrow> error option \<times> PeerSet" where
  "deleteResumptionRecord ctx addr =
     invoke ctx (DeleteResumptionRecord addr)
       (\<lambda>s. s\<lparr>resumptionRecords := (resumptionRecords s)(addr := None)\<rparr>)"

definition deletePeer :: "Context \<Rightarrow> PeerAddress \<Rightarrow> PeerSet \<Rightarrow> error option \<times> PeerSet" where
  "deletePeer ctx addr =
     invoke ctx (StoreDeletePeer addr) (\<lambda>s. s\<lparr>store := (store s)(addr := None)\<rparr>)"

definition updatePeer :: "Context \<Rightarrow> OperationalPeer \<Rightarrow> PeerSet \<Rightarrow> error option \<times> PeerSet" where
  "updatePeer ctx peer =
     invoke ctx (StoreUpdatePeer peer) (\<lambda>s. s\<lparr>store := (store s)(address peer \<mapsto> peer)\<rparr>)"

text \<open>
  Modelled from the spec: \<open>BasicSet\<close>, which is not under the modelled sources.  Adding
  or deleting a member runs the observer that the constructor of the peer set
  registered, which keeps \<open>peersByAddress\<close> in step.  \<open>peers_assign\<close> is an assignment
  to fields of a peer object, seen through both the set and the index.
\<close>

definition peers_add :: "OperationalPeer \<Rightarrow> PeerSet \<Rightarrow> PeerSet" where
  "peers_add peer s =
     (if peer \<in> set (peers s) then s
      else s\<lparr>peers := peers s @ [peer],
             peersByAddress := (peersByAddress s)(address peer \<mapsto> peer)\<rparr>)"

definition peers_delete :: "OperationalPeer \<Rightarrow> PeerSet \<Rightarrow> PeerSet" where
  "peers_delete peer s =
     (if peer \<in> set (peers s)
      then s\<lparr>peers := removeAll peer (peers s),
             peersByAddress := (peersByAddress s)(address peer := None)\<rparr>
      else s)"

definition peers_assign :: "OperationalPeer \<Rightarrow> OperationalPeer \<Rightarrow> PeerSet \<Rightarrow> PeerSet" where
  "peers_assign old new s =
     s\<lparr>peers := map (\<lambda>p. if p = old then new else p) (peers s),
       peersByAddress := (\<lambda>a. if peersByAddress s a = Some old then Some new
                                else peersByAddress s a)\<rparr>"

subsection \<open>Lookup, disconnect, delete\<close>

text \<open>The argument \<open>PeerAddress | OperationalPeer\<close> of \<open>get\<close>, \<open>disconnect\<close> and \<open>delete\<close>.\<close>

datatype peer_ref = ByAddress PeerAddress | ByPeer OperationalPeer

definition get :: "peer_ref \<Rightarrow> PeerSet \<Rightarrow> OperationalPeer option" where
  "get peer s =
     (case peer of
        ByPeer p \<Rightarrow> peersByAddress s (address p)
      | ByAddress a \<Rightarrow> peersByAddress s a)"

definition disconnect :: "Context \<Rightarrow> peer_ref \<Rightarrow> PeerSet \<Rightarrow> error option \<times> PeerSet" where
  "disconnect ctx peer s =
     (case get peer s of
        None \<Rightarrow> (None, s)
      | Some found \<Rightarrow>
          (case removeAllSessionsForNode ctx (address found) (Some True) s of
             (Some e, s1) \<Rightarrow> (Some e, s1)
           | (None, s1) \<Rightarrow> removeAllNodeChannels ctx (address found) s1))"

definition delete :: "Context \<Rightarrow> peer_ref \<Rightarrow> PeerSet \<Rightarrow> error option \<times> PeerSet" where
  "delete ctx peer s =
     (case get peer s of
        None \<Rightarrow> (None, s)
      | Some actual \<Rightarrow>
          (let s1 = peers_delete actual s in
           case deletePeer ctx (address actual) s1 of
             (Some e, s2) \<Rightarrow> (Some e, s2)
           | (None, s2) \<Rightarrow>
               (case disconnect ctx (ByPeer actual) s2 of
                  (Some e, s3) \<Rightarrow> (Some e, s3)
                | (None, s3) \<Rightarrow> deleteResumptionRecord ctx (address actual) s3)))"

subsection \<open>Cached operational address\<close>

definition getLastOperationalAddress :: "PeerAddress \<Rightarrow> PeerSet \<Rightarrow> ServerAddressIp option" where
  "getLastOperationalAddress addr s =
     (case peersByAddress s addr of None \<Rightarrow> None | Some p \<Rightarrow> operationalAddress p)"

definition getDiscoveredOperationalDevice :: "Context \<Rightarrow> PeerAddress \<Rightarrow> PeerSet \<Rightarrow> DiscoveredDevice option" where
  "getDiscoveredOperationalDevice ctx addr s = discovered s (fabricFor ctx addr, nodeId addr)"

text \<open>\<open>xs[0]\<close>: undefined on the empty array.\<close>

definition first :: "'a list \<Rightarrow> 'a option" where
  "first xs = (case xs of [] \<Rightarrow> None | x # _ \<Rightarrow> Some x)"

definition knownOperationalAddressFor :: "Context \<Rightarrow> PeerAddress \<Rightarrow> PeerSet \<Rightarrow> ServerAddressIp option \<times> PeerSet" where
  "knownOperationalAddressFor ctx addr s =
     (let discoveredAddresses =
            (if scannerPresent ctx then getDiscoveredOperationalDevice ctx addr s else None);
          lastKnownAddress = getLastOperationalAddress addr s
      in case discoveredAddresses of
           None \<Rightarrow> (None, s)
         | Some d \<Rightarrow>
             if lastKnownAddress \<noteq> None
                \<and> list_ex (\<lambda>a. ip a = ip (the lastKnownAddress) \<and> port a = port (the lastKnownAddress))
                     (addresses d)
             then (first [],
                   s\<lparr>discovered := (discovered s)((fabricFor ctx addr, nodeId addr) \<mapsto> d\<lparr>addresses := []\<rparr>)\<rparr>)
             else (first (addresses d), s))"

subsection \<open>Pairing\<close>

text \<open>
  \<open>a ?? b\<close>, and the object spread \<open>{...a, ...b}\<close> of two optional discovery data: a
  property present in \<open>b\<close> wins, also when its value is \<open>undefined\<close>; spreading
  \<open>undefined\<close> adds no property.
\<close>

definition first_defined :: "'a option \<Rightarrow> 'a option \<Rightarrow> 'a option" where
  "first_defined a b = (case a of Some x \<Rightarrow> Some x | None \<Rightarrow> b)"

definition later_property :: "'a option option \<Rightarrow> 'a option option \<Rightarrow> 'a option option" where
  "later_property later earlier = (case later of Some v \<Rightarrow> Some v | None \<Rightarrow> earlier)"

definition spread :: "DiscoveryData option \<Rightarrow> DiscoveryData option \<Rightarrow> DiscoveryData" where
  "spread a b =
     (let x = (case a of None \<Rightarrow> \<lparr>SII = None, SAI = None, SAT = None\<rparr> | Some d \<Rightarrow> d);
          y = (case b of None \<Rightarrow> \<lparr>SII = None, SAI = None, SAT = None\<rparr> | Some d \<Rightarrow> d)
      in \<lparr>SII = later_property (SII y) (SII x), SAI = later_property (SAI y) (SAI x),
          SAT = later_property (SAT y) (SAT x)\<rparr>)"

text \<open>
  The body of the outer \<open>try\<close> of \<open>#pair\<close>: the exchange is initiated and CASE is run; when
  CASE throws, the exchange is closed and the error rethrown; when the session was not
  resumed, the cached data of the peer is deleted.
\<close>

definition pair_exchange ::
  "Context \<Rightarrow> PeerAddress \<Rightarrow> ServerAddressIp \<Rightarrow> nat option \<Rightarrow> MessageChannel \<Rightarrow> PeerSet
     \<Rightarrow> (error + Session) \<times> PeerSet" where
  "pair_exchange ctx addr operationalServerAddress expectedProcessingTimeMs unsecure s =
     (case invoke ctx (InitiateExchangeWithChannel unsecure) (\<lambda>x. x) s of
        (Some e, s1) \<Rightarrow> (Inl e, s1)
      | (None, s1) \<Rightarrow>
          (let s2 = notify (CasePair (fabricFor ctx addr) (nodeId addr) expectedProcessingTimeMs) s1
           in case casePair ctx addr operationalServerAddress expectedProcessingTimeMs of
                Inr (sess, resumed) \<Rightarrow>
                  (Inr sess,
                   if \<not> resumed then s2\<lparr>nodeCachedData := (nodeCachedData s2)(addr := None)\<rparr>
                   else s2)
              | Inl e \<Rightarrow>
                  (case invoke ctx CloseExchange (\<lambda>x. x) s2 of
                     (Some e', s3) \<Rightarrow> (Inl e', s3)
                   | (None, s3) \<Rightarrow> (Inl e, s3))))"

text \<open>The session parameters of the unsecure session, and the end of \<open>#pair\<close> after the \<open>try\<close>.\<close>

definition unsecureSessionParameters ::
  "DiscoveryData option \<Rightarrow> SessionParameters option \<Rightarrow> SessionParameters" where
  "unsecureSessionParameters dd sessionParameters =
     \<lparr>idleIntervalMs =
        first_defined (case dd of None \<Rightarrow> None | Some d \<Rightarrow> read_property (SII d))
          (case sessionParameters of None \<Rightarrow> None | Some p \<Rightarrow> idleIntervalMs p),
      activeIntervalMs =
        first_defined (case dd of None \<Rightarrow> None | Some d \<Rightarrow> read_property (SAI d))
          (case sessionParameters of None \<Rightarrow> None | Some p \<Rightarrow> activeIntervalMs p),
      activeThresholdMs =
        first_defined (case dd of None \<Rightarrow> None | Some d \<Rightarrow> read_property (SAT d))
          (case sessionParameters of None \<Rightarrow> None | Some p \<Rightarrow> activeThresholdMs p)\<rparr>"

definition pair_register ::
  "Context \<Rightarrow> PeerAddress \<Rightarrow> TransportChannel \<Rightarrow> Session \<Rightarrow> Session \<Rightarrow> PeerSet
     \<Rightarrow> (error + MessageChannel) \<times> PeerSet" where
  "pair_register ctx addr operationalChannel unsecureSession operationalSecureSession s =
     (case invoke ctx (DestroySession unsecureSession) (\<lambda>x. x) s of
        (Some e, s1) \<Rightarrow> (Inl e, s1)
      | (None, s1) \<Rightarrow>
          (let ch = \<lparr>channel = operationalChannel, session = operationalSecureSession\<rparr>
           in case setChannel ctx addr ch s1 of
                (Some e, s2) \<Rightarrow> (Inl e, s2)
              | (None, s2) \<Rightarrow> (Inr ch, s2)))"

definition pair ::
  "Context \<Rightarrow> PeerAddress \<Rightarrow> ServerAddressIp \<Rightarrow> DiscoveryData option \<Rightarrow> nat option \<Rightarrow> PeerSet
     \<Rightarrow> (error + MessageChannel) \<times> PeerSet" where
  "pair ctx addr operationalServerAddress dd expectedProcessingTimeMs s =
     (let isIpv6Address = isIPv6 ctx (ip operationalServerAddress)
      in if \<not> interfaceFor ctx (if isIpv6Address then ''::'' else ''0.0.0.0'') then
           (Inl (PairRetransmissionLimitReachedError
                  (''IPv'' @ (if isIpv6Address then ''6'' else ''4'')
                   @ '' interface not initialized for port '' @ show_dec (port operationalServerAddress)
                   @ ''. Cannot use '' @ ip operationalServerAddress @ '' for pairing.'')), s)
         else
           (let s1 = notify (OpenChannel operationalServerAddress) s
            in case openChannel ctx operationalServerAddress of
                 Inl e \<Rightarrow> (Inl e, s1)
               | Inr operationalChannel \<Rightarrow>
                   (let params = unsecureSessionParameters dd (resumptionRecords s1 addr);
                        unsecureSession = InsecureSession params;
                        s2 = notify (CreateInsecureSession params) s1;
                        operationalUnsecureMessageExchange =
                          \<lparr>channel = operationalChannel, session = unsecureSession\<rparr>
                    in case pair_exchange ctx addr operationalServerAddress expectedProcessingTimeMs
                              operationalUnsecureMessageExchange s2 of
                         (Inl e, s3) \<Rightarrow>
                           if instanceofNoResponseTimeoutError ctx e
                           then (Inl (PairRetransmissionLimitReachedError (message e)), s3)
                           else (Inl e, s3)
                       | (Inr operationalSecureSession, s3) \<Rightarrow>
                           pair_register ctx addr operationalChannel unsecureSession
                             operationalSecureSession s3)))"

definition addOrUpdatePeer ::
  "Context \<Rightarrow> PeerAddress \<Rightarrow> ServerAddressIp \<Rightarrow> DiscoveryData option \<Rightarrow> PeerSet
     \<Rightarrow> error option \<times> PeerSet" where
  "addOrUpdatePeer ctx addr operationalServerAddress dd s =
     (let created = \<lparr>address = addr, operationalAddress = None, discoveryData = None\<rparr>;
          peer = (case peersByAddress s addr of None \<Rightarrow> created | Some p \<Rightarrow> p);
          s1 = (case peersByAddress s addr of None \<Rightarrow> peers_add created s | Some p \<Rightarrow> s);
          peer1 = peer\<lparr>operationalAddress := Some operationalServerAddress\<rparr>;
          peer2 = (case dd of
                     None \<Rightarrow> peer1
                   | Some d \<Rightarrow> peer1\<lparr>discoveryData := Some (spread (discoveryData peer1) (Some d))\<rparr>)
      in updatePeer ctx peer2 (peers_assign peer peer2 s1))"

text \<open>The \<open>catch\<close> of \<open>#reconnectKnownAddress\<close>.\<close>

definition reconnect_failed ::
  "Context \<Rightarrow> PeerAddress \<Rightarrow> error \<Rightarrow> PeerSet \<Rightarrow> (error + MessageChannel option) \<times> PeerSet" where
  "reconnect_failed ctx addr e s =
     (if instanceofNoResponseTimeoutError ctx e then
        (case removeAllSessionsForNode ctx addr None s of
           (Some e', s1) \<Rightarrow> (Inl e', s1)
         | (None, s1) \<Rightarrow> (Inr None, s1))
      else (Inl e, s))"

definition reconnectKnownAddress ::
  "Context \<Rightarrow> PeerAddress \<Rightarrow> ServerAddressIp \<Rightarrow> DiscoveryData option \<Rightarrow> nat option \<Rightarrow> PeerSet
     \<Rightarrow> (error + MessageChannel option) \<times> PeerSet" where
  "reconnectKnownAddress ctx addr operationalAddr dd expectedProcessingTimeMs s =
     (case pair ctx addr operationalAddr dd expectedProcessingTimeMs s of
        (Inl e, s1) \<Rightarrow> reconnect_failed ctx addr e s1
      | (Inr ch, s1) \<Rightarrow>
          (case addOrUpdatePeer ctx addr operationalAddr None s1 of
             (Some e, s2) \<Rightarrow> reconnect_failed ctx addr e s2
           | (None, s2) \<Rightarrow> (Inr (Some ch), s2)))"

subsection \<open>Connect or discover\<close>

text \<open>
  What \<open>#connectOrDiscoverNode\<close> returns: a channel, or what it awaits, which is
  \<open>anyPromise\<close> of a list of producers, bare (line 406) or with the \<open>finally\<close> that removes
  the running discovery (line 497).
\<close>

datatype discovery = Connected MessageChannel | AnyPromise "producer list" | AnyPromiseFinally "producer list"

definition RECONNECTION_POLLING_INTERVAL_MS :: nat where
  "RECONNECTION_POLLING_INTERVAL_MS = 600000"

definition requestedDiscoveryType :: "DiscoveryOptions \<Rightarrow> NodeDiscoveryType" where
  "requestedDiscoveryType opts =
     (case discoveryType opts of None \<Rightarrow> FullDiscovery | Some t \<Rightarrow> t)"

definition requestedDiscoveryData :: "DiscoveryOptions \<Rightarrow> PeerAddress \<Rightarrow> PeerSet \<Rightarrow> DiscoveryData option" where
  "requestedDiscoveryData opts addr s =
     (case optionsDiscoveryData opts of
        Some d \<Rightarrow> Some d
      | None \<Rightarrow> (case peersByAddress s addr of None \<Rightarrow> None | Some p \<Rightarrow> discoveryData p))"

text \<open>Lines 410 to 489: the timer and the producers of a new discovery.\<close>

definition reconnectionPollingTimer :: "ServerAddressIp option \<Rightarrow> NodeDiscoveryType \<Rightarrow> Timer option" where
  "reconnectionPollingTimer operationalAddr requested =
     (if operationalAddr \<noteq> None \<and> requested = FullDiscovery
      then Some (PeriodicTimer ''Controller reconnect'' RECONNECTION_POLLING_INTERVAL_MS)
      else None)"

definition discoveryPromises ::
  "PeerAddress \<Rightarrow> ServerAddressIp option \<Rightarrow> NodeDiscoveryType \<Rightarrow> nat option \<Rightarrow> DiscoveryData option
     \<Rightarrow> producer list" where
  "discoveryPromises addr operationalAddr requested timeoutS dd =
     (if operationalAddr \<noteq> None \<and> requested = FullDiscovery
      then [ReconnectionPolling addr (the operationalAddr) dd] else [])
     @ [OperationalDiscovery addr timeoutS dd]"

text \<open>Lines 400 to 497: wait on the producers found, or start a new discovery.\<close>

definition discover ::
  "PeerAddress \<Rightarrow> ServerAddressIp option \<Rightarrow> NodeDiscoveryType \<Rightarrow> nat option \<Rightarrow> DiscoveryData option
     \<Rightarrow> NodeDiscoveryType \<Rightarrow> producer list option \<Rightarrow> PeerSet \<Rightarrow> (error + discovery) \<times> PeerSet" where
  "discover addr operationalAddr requested timeoutS dd runningDiscoveryType proms s =
     (if proms \<noteq> None then
        (if enum_value runningDiscoveryType > enum_value requested then
           (Inl (DiscoveryError
                  (toString addr @ '' is not reachable right now and discovery already running.'')), s)
         else (Inr (AnyPromise (the proms)), s))
      else
        (let tm = reconnectionPollingTimer operationalAddr requested;
             s1 = (case tm of None \<Rightarrow> s | Some t \<Rightarrow> notify (StartTimer t) s);
             ps = discoveryPromises addr operationalAddr requested timeoutS dd
         in (Inr (AnyPromiseFinally ps),
             s1\<lparr>runningPeerDiscoveries := (runningPeerDiscoveries s1)
                   (addr \<mapsto> \<lparr>type = requested, promises = Some ps, timer = tm\<rparr>)\<rparr>)))"

definition connectOrDiscoverNode ::
  "Context \<Rightarrow> PeerAddress \<Rightarrow> ServerAddressIp option \<Rightarrow> DiscoveryOptions \<Rightarrow> PeerSet
     \<Rightarrow> (error + discovery) \<times> PeerSet" where
  "connectOrDiscoverNode ctx addr operationalAddr opts s =
     (let requested = requestedDiscoveryType opts;
          timeoutS = timeoutSeconds opts;
          dd = requestedDiscoveryData opts addr s
      in if timeoutS \<noteq> None \<and> requested \<noteq> TimedDiscovery then
           (Inl (ImplementationError ''Cannot set timeout without timed discovery.''), s)
         else if requested = RetransmissionDiscovery then
           (Inl (ImplementationError ''Cannot set retransmission discovery type.''), s)
         else if \<not> scannerPresent ctx then
           (Inl (ImplementationError ''Cannot discover device without mDNS scanner.''), s)
         else
           (let existingDiscoveryDetails =
                  (case runningPeerDiscoveries s addr of
                     None \<Rightarrow> \<lparr>type = NoneDiscovery, promises = None, timer = None\<rparr>
                   | Some d \<Rightarrow> d);
                lower = (type existingDiscoveryDetails \<noteq> NoneDiscovery
                         \<and> enum_value (type existingDiscoveryDetails) < enum_value requested);
                s1 = (if lower
                      then (notify (CancelOperationalDeviceDiscovery (fabricFor ctx addr) (nodeId addr) None) s)
                             \<lparr>runningPeerDiscoveries := (runningPeerDiscoveries s)(addr := None)\<rparr>
                      else s);
                runningDiscoveryType = (if lower then NoneDiscovery else type existingDiscoveryDetails);
                proms = promises existingDiscoveryDetails
            in if operationalAddr \<noteq> None
                  \<and> (runningDiscoveryType = NoneDiscovery \<or> requested = NoneDiscovery) then
                 (case reconnectKnownAddress ctx addr (the operationalAddr) dd None s1 of
                    (Inl e, s2) \<Rightarrow> (Inl e, s2)
                  | (Inr (Some directReconnection), s2) \<Rightarrow> (Inr (Connected directReconnection), s2)
                  | (Inr None, s2) \<Rightarrow>
                      if requested = NoneDiscovery then
                        (Inl (DiscoveryError (toString addr @ '' is not reachable right now.'')), s2)
                      else discover addr operationalAddr requested timeoutS dd runningDiscoveryType proms s2)
               else discover addr operationalAddr requested timeoutS dd runningDiscoveryType proms s1))"

definition resume ::
  "Context \<Rightarrow> PeerAddress \<Rightarrow> DiscoveryOptions \<Rightarrow> PeerSet \<Rightarrow> (error + discovery) \<times> PeerSet" where
  "resume ctx addr opts s =
     (case knownOperationalAddressFor ctx addr s of
        (operationalAddr, s1) \<Rightarrow>
          (case connectOrDiscoverNode ctx addr operationalAddr opts s1 of
             (Inl e, s2) \<Rightarrow>
               if (instanceofDiscoveryError e \<or> instanceofNoResponseTimeoutError ctx e)
                  \<and> peersByAddress s2 addr \<noteq> None
               then (case removeAllSessionsForNode ctx addr None s2 of
                       (Some e', s3) \<Rightarrow> (Inl e', s3)
                     | (None, s3) \<Rightarrow> (Inl e, s3))
               else (Inl e, s2)
           | (Inr r, s2) \<Rightarrow> (Inr r, s2)))"

subsection \<open>Connect\<close>

text \<open>
  \<open>connect\<close> returns a client when the channel is at hand; when \<open>#resume\<close> awaits
  producers, so does \<open>connect\<close>.  \<open>newInteractionClient\<close> is lines 230 to 269.
\<close>

record InteractionClient =
  exchangeChannel :: MessageChannel
  clientAddress :: PeerAddress
  cachedData :: NodeCachedData

datatype connection = Client InteractionClient | Pending discovery

definition newInteractionClient :: "PeerAddress \<Rightarrow> MessageChannel \<Rightarrow> PeerSet \<Rightarrow> InteractionClient \<times> PeerSet" where
  "newInteractionClient addr ch s =
     (let cached = (case nodeCachedData s addr of
                      Some c \<Rightarrow> c
                    | None \<Rightarrow> \<lparr>attributeValues = [], clusterDataVersions = [], maxEventNumber = None\<rparr>)
      in (\<lparr>exchangeChannel = ch, clientAddress = addr, cachedData = cached\<rparr>,
          s\<lparr>nodeCachedData := (nodeCachedData s)(addr \<mapsto> cached)\<rparr>))"

definition connect ::
  "Context \<Rightarrow> PeerAddress \<Rightarrow> DiscoveryOptions \<Rightarrow> PeerSet \<Rightarrow> (error + connection) \<times> PeerSet" where
  "connect ctx addr opts s =
     (case channels s addr of
        Some ch \<Rightarrow> (case newInteractionClient addr ch s of (c, s1) \<Rightarrow> (Inr (Client c), s1))
      | None \<Rightarrow>
          (case resume ctx addr opts s of
             (Inl e, s1) \<Rightarrow> (Inl e, s1)
           | (Inr (Connected ch), s1) \<Rightarrow>
               (case newInteractionClient addr ch s1 of (c, s2) \<Rightarrow> (Inr (Client c), s2))
           | (Inr waiting, s1) \<Rightarrow> (Inr (Pending waiting), s1)))"

subsection \<open>Concrete inputs\<close>

text \<open>
  A context in which every collaborator succeeds and CASE reports a session that was not
  resumed, one peer address, two operational addresses, and peer sets in the states the
  theorems below are run on.
\<close>

definition peerA :: PeerAddress where
  "peerA = \<lparr>fabricIndex = 1, nodeId = 2\<rparr>"

definition ipA :: ServerAddressIp where
  "ipA = \<lparr>ip = ''fe80::1'', port = 5540\<rparr>"

definition ipB :: ServerAddressIp where
  "ipB = \<lparr>ip = ''2001:db8::2'', port = 5540\<rparr>"

definition ctx0 :: Context where
  "ctx0 = \<lparr>scannerPresent = True, fabricFor = fabricIndex, isIPv6 = (\<lambda>s. CHR '':'' \<in> set s),
            interfaceFor = (\<lambda>_. True), openChannel = (\<lambda>a. Inr (UdpChannel a)),
            casePair = (\<lambda>_ _ _. Inr (SecureSession 7, False)), failing = (\<lambda>_. None),
            limitErrorsAreTimeouts = True\<rparr>"

definition empty_PeerSet :: PeerSet where
  "empty_PeerSet = \<lparr>peers = [], peersByAddress = Map.empty, runningPeerDiscoveries = Map.empty,
     nodeCachedData = Map.empty, channels = Map.empty, sessions = (\<lambda>_. []),
     resumptionRecords = Map.empty, store = Map.empty, discovered = Map.empty, calls = []\<rparr>"

definition knownPeerA :: OperationalPeer where
  "knownPeerA = \<lparr>address = peerA, operationalAddress = Some ipA, discoveryData = None\<rparr>"

definition channelA :: MessageChannel where
  "channelA = \<lparr>channel = UdpChannel ipA, session = SecureSession 3\<rparr>"

definition connected_PeerSet :: PeerSet where
  "connected_PeerSet = empty_PeerSet\<lparr>peers := [knownPeerA], peersByAddress := [peerA \<mapsto> knownPeerA],
     channels := [peerA \<mapsto> channelA], sessions := (\<lambda>a. if a = peerA then [SecureSession 3] else []),
     resumptionRecords := [peerA \<mapsto> \<lparr>idleIntervalMs = None, activeIntervalMs = None, activeThresholdMs = None\<rparr>],
     store := [peerA \<mapsto> knownPeerA]\<rparr>"

definition fullOptions :: DiscoveryOptions where
  "fullOptions = \<lparr>discoveryType = Some FullDiscovery, timeoutSeconds = None, optionsDiscoveryData = None\<rparr>"

definition timedOptions :: DiscoveryOptions where
  "timedOptions = \<lparr>discoveryType = Some TimedDiscovery, timeoutSeconds = Some 10, optionsDiscoveryData = None\<rparr>"

definition noneOptions :: DiscoveryOptions where
  "noneOptions = \<lparr>discoveryType = Some NoneDiscovery, timeoutSeconds = None, optionsDiscoveryData = None\<rparr>"

definition retransmissionOptions :: DiscoveryOptions where
  "retransmissionOptions =
     \<lparr>discoveryType = Some RetransmissionDiscovery, timeoutSeconds = None, optionsDiscoveryData = None\<rparr>"

definition placeholder :: RunningDiscovery where
  "placeholder = \<lparr>type = RetransmissionDiscovery, promises = None, timer = None\<rparr>"

definition timedRunning :: RunningDiscovery where
  "timedRunning = \<lparr>type = TimedDiscovery, promises = Some [OperationalDiscovery peerA (Some 10) None],
                    timer = None\<rparr>"

definition fullRunning :: RunningDiscovery where
  "fullRunning = \<lparr>type = FullDiscovery, promises = Some [OperationalDiscovery peerA None None],
                   timer = None\<rparr>"

definition retransmitting_PeerSet :: PeerSet where
  "retransmitting_PeerSet = empty_PeerSet\<lparr>runningPeerDiscoveries := [peerA \<mapsto> placeholder]\<rparr>"

definition timed_PeerSet :: PeerSet where
  "timed_PeerSet = empty_PeerSet\<lparr>runningPeerDiscoveries := [peerA \<mapsto> timedRunning]\<rparr>"

definition full_PeerSet :: PeerSet where
  "full_PeerSet = empty_PeerSet\<lparr>runningPeerDiscoveries := [peerA \<mapsto> fullRunning]\<rparr>"

definition cached_PeerSet :: PeerSet where
  "cached_PeerSet = empty_PeerSet\<lparr>peers := [knownPeerA], peersByAddress := [peerA \<mapsto> knownPeerA],
     nodeCachedData := [peerA \<mapsto> \<lparr>attributeValues = [(''0/6/0'', ''true'')],
                                    clusterDataVersions = [(''0/6'', 4)], maxEventNumber = Some 9\<rparr>],
     discovered := [(1, 2) \<mapsto> \<lparr>addresses = [ipB, ipA],
                                 deviceData = \<lparr>SII = None, SAI = None, SAT = None\<rparr>\<rparr>]\<rparr>"


definition ctx_resumed :: Context where
  "ctx_resumed = ctx0\<lparr>casePair := (\<lambda>_ _ _. Inr (SecureSession 7, True))\<rparr>"

definition discovered_PeerSet :: PeerSet where
  "discovered_PeerSet = empty_PeerSet\<lparr>discovered := [(1, 2) \<mapsto> \<lparr>addresses = [ipB, ipA],
                                 deviceData = \<lparr>SII = None, SAI = None, SAT = None\<rparr>\<rparr>]\<rparr>"

definition cachedA :: NodeCachedData where
  "cachedA = \<lparr>attributeValues = [(''0/6/0'', ''true'')], clusterDataVersions = [(''0/6'', 4)],
              maxEventNumber = Some 9\<rparr>"

section \<open>Theorems: TLV float schema\<close>

text \<open>
  Claim C9.  For a float schema with both a minimum and a maximum configured,
  \<open>validate\<close> throws exactly when the value is below the minimum or above the maximum,
  and when it throws because the value is above the maximum (and not below the minimum)
  the message interpolates the configured minimum, not the maximum.
\<close>

theorem validate_throws_iff_out_of_bounds:
  assumes "schema_min this = Some mn" and "schema_max this = Some mx"
  shows "((\<exists>e. validate render this v = Inl e) \<longleftrightarrow> (lt v mn \<or> gt v mx))
       \<and> (gt v mx \<and> \<not> lt v mn \<longrightarrow>
            validate render this v =
              Inl (Error (''Invalid value: '' @ render v @ '' is above the maximum, ''
                          @ render mn @ ''.'')))"
  using assms by (simp add: validate_def show_bound_def)

theorem validate_throws_iff_out_of_bounds_witness:
  "schema_min schema_0_10 = Some (Fin 0) \<and> schema_max schema_0_10 = Some (Fin 10)
   \<and> gt (Fin 11) (Fin 10) \<and> \<not> lt (Fin 11) (Fin 0)
   \<and> validate render_small schema_0_10 (Fin 11) =
       Inl (Error ''Invalid value: 11 is above the maximum, 0.'')"
proof -
  have a: "schema_min schema_0_10 = Some (Fin 0)" by (simp add: schema_0_10_def)
  have b: "schema_max schema_0_10 = Some (Fin 10)" by (simp add: schema_0_10_def)
  have c: "gt (Fin 11) (Fin 10) \<and> \<not> lt (Fin 11) (Fin 0)" by (simp add: gt_def)
  from validate_throws_iff_out_of_bounds [OF a b, of render_small "Fin 11"] c
  have "validate render_small schema_0_10 (Fin 11) =
          Inl (Error (''Invalid value: '' @ render_small (Fin 11) @ '' is above the maximum, ''
                      @ render_small (Fin 0) @ ''.''))"
    by blast
  then show ?thesis using a b c by (simp add: render_small_def)
qed

section \<open>Theorems: asynchronous construction\<close>

lemma lifecycle_inv_initial: "lifecycle_inv (initial hook)"
  by (simp add: lifecycle_inv_def initial_def)

lemma lifecycle_inv_step: "lifecycle_inv s \<Longrightarrow> lifecycle_inv (step e s)"
  by (cases e) (auto simp: lifecycle_inv_def start_def settle_def cancel_def then_await_def Let_def
      split: initialization.splits settlement.splits)

lemma lifecycle_inv_run: "lifecycle_inv s \<Longrightarrow> lifecycle_inv (run evs s)"
  by (induction evs arbitrary: s) (auto simp: lifecycle_inv_step)

lemma step_ready: "lifecycle_inv s \<Longrightarrow> ready s \<Longrightarrow> ready (step e s)"
  by (cases e) (auto simp: lifecycle_inv_def start_def settle_def cancel_def then_await_def Let_def
      split: initialization.splits settlement.splits)

lemma step_final:
  "lifecycle_inv s \<Longrightarrow> status s = Active \<or> status s = Incapacitated \<Longrightarrow> status (step e s) = status s"
  by (cases e) (auto simp: lifecycle_inv_def start_def settle_def cancel_def then_await_def Let_def
      split: initialization.splits settlement.splits)

lemma step_cause:
  "status (step e s) \<noteq> status s \<Longrightarrow>
     (status (step e s) = Active \<and> (e = Start Returns \<or> e = Settle Fulfilled))
   \<or> (status (step e s) = Incapacitated \<and> (\<exists>x. e = Start (Throws x) \<or> e = Settle (Rejected x)))
   \<or> (status (step e s) = Destroyed \<and> e = Cancel)"
  by (cases e) (auto simp: start_def settle_def cancel_def then_await_def Let_def
      split: initialization.splits settlement.splits if_splits)

lemma step_from:
  "lifecycle_inv s \<Longrightarrow> status (step e s) \<noteq> status s \<Longrightarrow>
     status s = Initializing \<or> (status s = Destroyed \<and> status (step e s) \<noteq> Destroyed)"
  using step_final [of s e] by (cases "status s") auto

text \<open>
  Claim C8, as amended.  For every handle, whatever calls and completions it has seen:
  \<open>ready\<close> never goes back from true to false; a status of \<open>Active\<close> or \<open>Incapacitated\<close>
  never changes again; the status changes only from \<open>Initializing\<close>, or from \<open>Destroyed\<close> to
  \<open>Active\<close> or \<open>Incapacitated\<close>; and it becomes \<open>Active\<close> only when the initializer succeeds,
  \<open>Incapacitated\<close> only when the initializer fails, \<open>Destroyed\<close> only by \<open>cancel\<close>.
\<close>

theorem lifecycle_status_transitions:
  "(ready (run evs (initial hook)) \<longrightarrow> ready (step e (run evs (initial hook))))
   \<and> (status (run evs (initial hook)) = Active \<or> status (run evs (initial hook)) = Incapacitated
        \<longrightarrow> status (step e (run evs (initial hook))) = status (run evs (initial hook)))
   \<and> (status (step e (run evs (initial hook))) \<noteq> status (run evs (initial hook)) \<longrightarrow>
        (status (run evs (initial hook)) = Initializing
         \<or> (status (run evs (initial hook)) = Destroyed
             \<and> status (step e (run evs (initial hook))) \<noteq> Destroyed))
        \<and> ((status (step e (run evs (initial hook))) = Active
              \<and> (e = Start Returns \<or> e = Settle Fulfilled))
           \<or> (status (step e (run evs (initial hook))) = Incapacitated
              \<and> (\<exists>x. e = Start (Throws x) \<or> e = Settle (Rejected x)))
           \<or> (status (step e (run evs (initial hook))) = Destroyed \<and> e = Cancel)))"
proof -
  have i: "lifecycle_inv (run evs (initial hook))"
    by (rule lifecycle_inv_run) (rule lifecycle_inv_initial)
  show ?thesis
    using step_ready [OF i, of e] step_final [OF i, of e] step_from [OF i, of e]
      step_cause [of e "run evs (initial hook)"]
    by blast
qed

text \<open>
  The theorem at a handle whose initializer returned at once, followed by \<open>cancel\<close>: the
  handle is ready and \<open>Active\<close> before, and so it is after.
\<close>

theorem lifecycle_status_transitions_witness:
  "ready (run [Start Returns] (initial True))
   \<and> status (run [Start Returns] (initial True)) = Active
   \<and> ready (step Cancel (run [Start Returns] (initial True)))
   \<and> status (step Cancel (run [Start Returns] (initial True))) = Active"
proof -
  have r: "ready (run [Start Returns] (initial True))"
    and a: "status (run [Start Returns] (initial True)) = Active"
    by (simp_all add: start_def initial_def)
  from lifecycle_status_transitions [of "[Start Returns]" True Cancel] r a
  have "ready (step Cancel (run [Start Returns] (initial True)))
        \<and> status (step Cancel (run [Start Returns] (initial True)))
            = status (run [Start Returns] (initial True))"
    by blast
  then show ?thesis using r a by simp
qed

text \<open>
  Claim C8 as stated fails: with a cancel hook, an initializer that returned a promise, a
  \<open>cancel\<close> and then the fulfilment of the promise, the status is \<open>Destroyed\<close> and then
  \<open>Active\<close>; \<open>ready\<close> is then true and \<open>canceled\<close> stays true.
\<close>

theorem destroyed_status_is_overwritten:
  "status (run [Start ReturnsPromise, Cancel] (initial True)) = Destroyed
   \<and> status (run [Start ReturnsPromise, Cancel, Settle Fulfilled] (initial True)) = Active
   \<and> ready (run [Start ReturnsPromise, Cancel, Settle Fulfilled] (initial True))
   \<and> canceled (run [Start ReturnsPromise, Cancel, Settle Fulfilled] (initial True))"
  by (simp add: start_def cancel_def settle_def initial_def)

section \<open>Theorems: peer address interning\<close>



















section \<open>Theorems: peer set\<close>

lemmas fixture_defs = peerA_def ipA_def ipB_def ctx0_def empty_PeerSet_def knownPeerA_def channelA_def
  connected_PeerSet_def fullOptions_def timedOptions_def noneOptions_def retransmissionOptions_def
  placeholder_def timedRunning_def fullRunning_def retransmitting_PeerSet_def timed_PeerSet_def
  full_PeerSet_def cached_PeerSet_def ctx_resumed_def discovered_PeerSet_def cachedA_def

lemmas model_defs = connectOrDiscoverNode_def discover_def requestedDiscoveryType_def
  requestedDiscoveryData_def reconnectKnownAddress_def pair_def pair_exchange_def pair_register_def
  addOrUpdatePeer_def reconnect_failed_def invoke_def notify_def setChannel_def updatePeer_def
  peers_add_def peers_assign_def unsecureSessionParameters_def first_defined_def
  discoveryPromises_def reconnectionPollingTimer_def Let_def


text \<open>What the lookup of the cached operational address leaves unchanged.\<close>

lemma knownOperationalAddressFor_frame:
  "calls (snd (knownOperationalAddressFor ctx addr s)) = calls s
   \<and> runningPeerDiscoveries (snd (knownOperationalAddressFor ctx addr s)) = runningPeerDiscoveries s
   \<and> channels (snd (knownOperationalAddressFor ctx addr s)) = channels s
   \<and> peersByAddress (snd (knownOperationalAddressFor ctx addr s)) = peersByAddress s
   \<and> snd (knownOperationalAddressFor ctx addr s)
       = s\<lparr>discovered := discovered (snd (knownOperationalAddressFor ctx addr s))\<rparr>"
  by (simp add: knownOperationalAddressFor_def Let_def split: option.splits)

subsection \<open>Upgrading a running discovery\<close>

text \<open>
  Claim C1 fails on the code.  A request for full discovery arrives, with no cached
  operational address, while a timed discovery with its producer is registered.  The
  scanner is told to cancel the discovery for the fabric and node id and the entry is
  removed, as the claim says; but only \<open>type\<close> of the cancelled entry is reset, its
  \<open>promises\<close> are still read, so the caller waits on the producer of the cancelled timed
  discovery (with its timeout of 10 seconds) and no discovery of the requested type is
  registered.
\<close>

theorem upgrade_awaits_cancelled_producers:
  "runningPeerDiscoveries timed_PeerSet peerA
     = Some \<lparr>type = TimedDiscovery, promises = Some [OperationalDiscovery peerA (Some 10) None],
              timer = None\<rparr>
   \<and> fst (connectOrDiscoverNode ctx0 peerA None fullOptions timed_PeerSet)
     = Inr (AnyPromise [OperationalDiscovery peerA (Some 10) None])
   \<and> runningPeerDiscoveries
       (snd (connectOrDiscoverNode ctx0 peerA None fullOptions timed_PeerSet)) peerA = None
   \<and> calls (snd (connectOrDiscoverNode ctx0 peerA None fullOptions timed_PeerSet))
     = [CancelOperationalDeviceDiscovery 1 2 None]"
  by (simp add: model_defs fixture_defs)

text \<open>
  The same in general: whenever the cancelled discovery had producers and no address is
  cached, the scanner is told to cancel, the entry is removed, the caller waits on the
  cancelled producers and no discovery is registered.
\<close>

lemma cancelled_producers_are_awaited:
  assumes "timeoutSeconds opts = None \<or> requestedDiscoveryType opts = TimedDiscovery"
    and "scannerPresent ctx"
    and "runningPeerDiscoveries s addr = Some rd"
    and "type rd \<noteq> NoneDiscovery"
    and "enum_value (type rd) < enum_value (requestedDiscoveryType opts)"
    and "promises rd = Some ps"
  shows "connectOrDiscoverNode ctx addr None opts s =
     (Inr (AnyPromise ps),
      (notify (CancelOperationalDeviceDiscovery (fabricFor ctx addr) (nodeId addr) None) s)
        \<lparr>runningPeerDiscoveries := (runningPeerDiscoveries s)(addr := None)\<rparr>)"
proof -
  have r: "requestedDiscoveryType opts \<noteq> RetransmissionDiscovery"
    using assms(4,5) by (cases "type rd"; cases "requestedDiscoveryType opts"; simp)
  have v: "\<not> (timeoutSeconds opts \<noteq> None \<and> requestedDiscoveryType opts \<noteq> TimedDiscovery)"
    using assms(1) by auto
  show ?thesis using assms(2-6) r v
    by (simp add: connectOrDiscoverNode_def discover_def Let_def)
qed

text \<open>
  Where the cancelled entry has no producers (the placeholder that the resubmission
  reactor registers), the code does replace it: after the cancel, a direct reconnect to a
  cached address is attempted first and its channel or error is the result; otherwise a
  discovery of the requested type is registered with new producers and awaited.
\<close>

lemma placeholder_cancelled_and_replaced:
  assumes "timeoutSeconds opts = None \<or> requestedDiscoveryType opts = TimedDiscovery"
    and "scannerPresent ctx"
    and "runningPeerDiscoveries s addr = Some rd"
    and "type rd \<noteq> NoneDiscovery"
    and "enum_value (type rd) < enum_value (requestedDiscoveryType opts)"
    and "promises rd = None"
  shows "connectOrDiscoverNode ctx addr operationalAddr opts s =
     (let requested = requestedDiscoveryType opts;
          dd = requestedDiscoveryData opts addr s;
          s0 = (notify (CancelOperationalDeviceDiscovery (fabricFor ctx addr) (nodeId addr) None) s)
                 \<lparr>runningPeerDiscoveries := (runningPeerDiscoveries s)(addr := None)\<rparr>
      in case (case operationalAddr of
                 None \<Rightarrow> (Inr None, s0)
               | Some a \<Rightarrow> reconnectKnownAddress ctx addr a dd None s0) of
           (Inl e, s1) \<Rightarrow> (Inl e, s1)
         | (Inr (Some ch), s1) \<Rightarrow> (Inr (Connected ch), s1)
         | (Inr None, s1) \<Rightarrow>
             (let tm = reconnectionPollingTimer operationalAddr requested;
                  ps = discoveryPromises addr operationalAddr requested (timeoutSeconds opts) dd;
                  s2 = (case tm of None \<Rightarrow> s1 | Some t \<Rightarrow> notify (StartTimer t) s1)
              in (Inr (AnyPromiseFinally ps),
                  s2\<lparr>runningPeerDiscoveries := (runningPeerDiscoveries s2)
                        (addr \<mapsto> \<lparr>type = requested, promises = Some ps, timer = tm\<rparr>)\<rparr>)))"
proof -
  have r: "requestedDiscoveryType opts \<noteq> RetransmissionDiscovery"
    "requestedDiscoveryType opts \<noteq> NoneDiscovery"
    using assms(4,5) by (cases "type rd"; cases "requestedDiscoveryType opts"; simp)+
  have v: "\<not> (timeoutSeconds opts \<noteq> None \<and> requestedDiscoveryType opts \<noteq> TimedDiscovery)"
    using assms(1) by auto
  show ?thesis
  proof (cases operationalAddr)
    case None
    then show ?thesis using assms(2-6) r v
      by (simp add: connectOrDiscoverNode_def discover_def Let_def)
  next
    case (Some a)
    then show ?thesis using assms(2-6) r v
      by (cases "timeoutSeconds opts")
        (auto simp: connectOrDiscoverNode_def discover_def Let_def
          split: prod.splits sum.splits option.splits)
  qed
qed

text \<open>
  An instance: full discovery requested, no cached address, the placeholder of a
  retransmission discovery registered.
\<close>

lemma placeholder_cancelled_and_replaced_example:
  "runningPeerDiscoveries retransmitting_PeerSet peerA = Some placeholder
   \<and> enum_value (type placeholder) < enum_value (requestedDiscoveryType fullOptions)
   \<and> fst (connectOrDiscoverNode ctx0 peerA None fullOptions retransmitting_PeerSet)
       = Inr (AnyPromiseFinally [OperationalDiscovery peerA None None])
   \<and> runningPeerDiscoveries
        (snd (connectOrDiscoverNode ctx0 peerA None fullOptions retransmitting_PeerSet)) peerA
       = Some \<lparr>type = FullDiscovery, promises = Some [OperationalDiscovery peerA None None],
                timer = None\<rparr>
   \<and> calls (snd (connectOrDiscoverNode ctx0 peerA None fullOptions retransmitting_PeerSet))
       = [CancelOperationalDeviceDiscovery 1 2 None]"
proof -
  have h1: "timeoutSeconds fullOptions = None \<or> requestedDiscoveryType fullOptions = TimedDiscovery"
    by (simp add: fullOptions_def)
  have h2: "scannerPresent ctx0" by (simp add: ctx0_def)
  have h3: "runningPeerDiscoveries retransmitting_PeerSet peerA = Some placeholder"
    by (simp add: retransmitting_PeerSet_def empty_PeerSet_def)
  have h4: "type placeholder \<noteq> NoneDiscovery" by (simp add: placeholder_def)
  have h5: "enum_value (type placeholder) < enum_value (requestedDiscoveryType fullOptions)"
    by (simp add: placeholder_def fullOptions_def requestedDiscoveryType_def)
  have h6: "promises placeholder = None" by (simp add: placeholder_def)
  note c = placeholder_cancelled_and_replaced [OF h1 h2 h3 h4 h5 h6, of None]
  show ?thesis
    unfolding c using h3 h5
    by (simp add: Let_def notify_def reconnectionPollingTimer_def discoveryPromises_def
        requestedDiscoveryType_def requestedDiscoveryData_def fullOptions_def
        retransmitting_PeerSet_def empty_PeerSet_def ctx0_def peerA_def)
qed

text \<open>
  With a cached address and the placeholder registered, the direct reconnect succeeds:
  its channel is the result and no discovery is registered.
\<close>

lemma upgrade_with_cached_address_reconnects:
  "fst (connectOrDiscoverNode ctx0 peerA (Some ipA) fullOptions retransmitting_PeerSet)
     = Inr (Connected \<lparr>channel = UdpChannel ipA, session = SecureSession 7\<rparr>)
   \<and> runningPeerDiscoveries
       (snd (connectOrDiscoverNode ctx0 peerA (Some ipA) fullOptions retransmitting_PeerSet)) peerA = None"
  by (simp add: model_defs fixture_defs)

subsection \<open>Joining a running discovery\<close>




text \<open>
  The discovery error then passes through \<open>#resume\<close>, which removes the sessions of the
  node when the peer is known, and rethrows it.
\<close>

lemma resume_removes_sessions_on_discovery_error:
  assumes "connectOrDiscoverNode ctx addr (fst (knownOperationalAddressFor ctx addr s)) opts
             (snd (knownOperationalAddressFor ctx addr s))
           = (Inl (DiscoveryError m), snd (knownOperationalAddressFor ctx addr s))"
  shows "resume ctx addr opts s =
     (if peersByAddress s addr \<noteq> None then
        (case removeAllSessionsForNode ctx addr None (snd (knownOperationalAddressFor ctx addr s)) of
           (Some e', s3) \<Rightarrow> (Inl e', s3)
         | (None, s3) \<Rightarrow> (Inl (DiscoveryError m), s3))
      else (Inl (DiscoveryError m), snd (knownOperationalAddressFor ctx addr s)))"
proof -
  obtain oa s1 where k: "knownOperationalAddressFor ctx addr s = (oa, s1)"
    by (cases "knownOperationalAddressFor ctx addr s")
  have p: "peersByAddress s1 = peersByAddress s"
    using knownOperationalAddressFor_frame [of ctx addr s] k by simp
  show ?thesis using assms k p
    by (simp add: resume_def instanceofDiscoveryError_def)
qed

subsection \<open>Requests of type None\<close>

lemma none_request_with_cached_address:
  assumes "timeoutSeconds opts = None" and "requestedDiscoveryType opts = NoneDiscovery"
    and "scannerPresent ctx"
  shows "connectOrDiscoverNode ctx addr (Some a) opts s =
     (case reconnectKnownAddress ctx addr a (requestedDiscoveryData opts addr s) None s of
        (Inl e, s1) \<Rightarrow> (Inl e, s1)
      | (Inr (Some ch), s1) \<Rightarrow> (Inr (Connected ch), s1)
      | (Inr None, s1) \<Rightarrow>
          (Inl (DiscoveryError (toString addr @ '' is not reachable right now.'')), s1))"
  using assms
  by (simp add: connectOrDiscoverNode_def Let_def split: prod.splits sum.splits option.splits)

text \<open>
  Claim C3 fails on the code: a \<open>connect\<close> of type \<open>None\<close> for an address with no channel,
  no cached operational address and no running discovery registers a discovery of type
  \<open>None\<close> with an mDNS producer and awaits it, although the type is documented as
  "No discovery is done".
\<close>

theorem none_request_starts_mdns_discovery:
  "fst (connect ctx0 peerA noneOptions empty_PeerSet)
     = Inr (Pending (AnyPromiseFinally [OperationalDiscovery peerA None None]))
   \<and> runningPeerDiscoveries (snd (connect ctx0 peerA noneOptions empty_PeerSet)) peerA
     = Some \<lparr>type = NoneDiscovery, promises = Some [OperationalDiscovery peerA None None],
              timer = None\<rparr>"
  by (simp add: connect_def resume_def knownOperationalAddressFor_def
      getDiscoveredOperationalDevice_def getLastOperationalAddress_def model_defs fixture_defs)

subsection \<open>Cached node data and CASE\<close>

lemma pair_exchange_cache:
  assumes "failing ctx (InitiateExchangeWithChannel uc) = None"
    and "casePair ctx addr osa ept = Inr (sess, resumed)"
  shows "nodeCachedData (snd (pair_exchange ctx addr osa ept uc s)) =
           (if resumed then nodeCachedData s else (nodeCachedData s)(addr := None))
       \<and> fst (pair_exchange ctx addr osa ept uc s) = Inr sess"
  using assms by (simp add: pair_exchange_def invoke_def notify_def Let_def)

lemma pair_register_cache:
  "nodeCachedData (snd (pair_register ctx addr tc us sec s)) = nodeCachedData s"
  by (simp add: pair_register_def invoke_def setChannel_def Let_def split: option.splits)

text \<open>
  Claim C4.  For every pairing that reaches CASE (the interface of the address family is
  open, the channel opens, the exchange is initiated) in which CASE reports a session:
  when the session was not resumed, the cached node data of the peer's address is absent
  when \<open>#pair\<close> ends, whether its last steps succeed or throw; when the session was
  resumed, the cached node data is what it was.
\<close>

theorem pair_drops_cache_unless_resumed:
  assumes iface: "interfaceFor ctx (if isIPv6 ctx (ip osa) then ''::'' else ''0.0.0.0'')"
    and chan: "openChannel ctx osa = Inr tc"
    and exch: "\<forall>uc. failing ctx (InitiateExchangeWithChannel uc) = None"
    and cas: "casePair ctx addr osa ept = Inr (sess, resumed)"
  shows "(\<not> resumed \<longrightarrow> nodeCachedData (snd (pair ctx addr osa dd ept s)) addr = None)
       \<and> (resumed \<longrightarrow> nodeCachedData (snd (pair ctx addr osa dd ept s)) = nodeCachedData s)"
proof -
  define params where "params = unsecureSessionParameters dd (resumptionRecords s addr)"
  define uc where "uc = \<lparr>channel = tc, session = InsecureSession params\<rparr>"
  define s2 where "s2 = notify (CreateInsecureSession params) (notify (OpenChannel osa) s)"
  have c2: "nodeCachedData s2 = nodeCachedData s" by (simp add: s2_def notify_def)
  from pair_exchange_cache [OF exch [rule_format] cas, of uc s2]
  have px: "nodeCachedData (snd (pair_exchange ctx addr osa ept uc s2)) =
              (if resumed then nodeCachedData s else (nodeCachedData s)(addr := None))"
    and pr: "fst (pair_exchange ctx addr osa ept uc s2) = Inr sess"
    by (simp_all add: c2)
  obtain s3 where s3: "pair_exchange ctx addr osa ept uc s2 = (Inr sess, s3)"
    using pr by (cases "pair_exchange ctx addr osa ept uc s2") auto
  have rr: "resumptionRecords (notify (OpenChannel osa) s) addr = resumptionRecords s addr"
    by (simp add: notify_def)
  have "pair ctx addr osa dd ept s = pair_register ctx addr tc (InsecureSession params) sess s3"
    using iface chan s3
    by (simp add: pair_def Let_def rr params_def [symmetric] uc_def [symmetric] s2_def [symmetric])
  then show ?thesis using px s3 by (simp add: pair_register_cache)
qed

text \<open>
  The theorem at a peer with cached node data: after a pairing that was not resumed the
  entry is gone, after a resumed one it is there.
\<close>

theorem pair_drops_cache_unless_resumed_witness:
  "nodeCachedData cached_PeerSet peerA = Some cachedA
   \<and> casePair ctx0 peerA ipA None = Inr (SecureSession 7, False)
   \<and> nodeCachedData (snd (pair ctx0 peerA ipA None None cached_PeerSet)) peerA = None
   \<and> casePair ctx_resumed peerA ipA None = Inr (SecureSession 7, True)
   \<and> nodeCachedData (snd (pair ctx_resumed peerA ipA None None cached_PeerSet)) peerA = Some cachedA"
proof -
  have c: "nodeCachedData cached_PeerSet peerA = Some cachedA"
    by (simp add: cached_PeerSet_def empty_PeerSet_def cachedA_def)
  have i0: "interfaceFor ctx0 (if isIPv6 ctx0 (ip ipA) then ''::'' else ''0.0.0.0'')"
    and o0: "openChannel ctx0 ipA = Inr (UdpChannel ipA)"
    and e0: "\<forall>uc. failing ctx0 (InitiateExchangeWithChannel uc) = None"
    and p0: "casePair ctx0 peerA ipA None = Inr (SecureSession 7, False)"
    by (simp_all add: ctx0_def)
  have i1: "interfaceFor ctx_resumed (if isIPv6 ctx_resumed (ip ipA) then ''::'' else ''0.0.0.0'')"
    and o1: "openChannel ctx_resumed ipA = Inr (UdpChannel ipA)"
    and e1: "\<forall>uc. failing ctx_resumed (InitiateExchangeWithChannel uc) = None"
    and p1: "casePair ctx_resumed peerA ipA None = Inr (SecureSession 7, True)"
    by (simp_all add: ctx_resumed_def ctx0_def)
  from pair_drops_cache_unless_resumed [OF i0 o0 e0 p0, of None cached_PeerSet]
  have a: "nodeCachedData (snd (pair ctx0 peerA ipA None None cached_PeerSet)) peerA = None"
    by simp
  from pair_drops_cache_unless_resumed [OF i1 o1 e1 p1, of None cached_PeerSet]
  have b: "nodeCachedData (snd (pair ctx_resumed peerA ipA None None cached_PeerSet))
             = nodeCachedData cached_PeerSet"
    by simp
  show ?thesis using a b c p0 p1 by simp
qed

subsection \<open>Configuration mistakes\<close>

lemma connectOrDiscoverNode_rejects:
  assumes "discoveryType opts = Some RetransmissionDiscovery
           \<or> (timeoutSeconds opts \<noteq> None \<and> discoveryType opts \<noteq> Some TimedDiscovery)"
  shows "connectOrDiscoverNode ctx addr operationalAddr opts s =
           (Inl (ImplementationError
                  (if timeoutSeconds opts \<noteq> None \<and> discoveryType opts \<noteq> Some TimedDiscovery
                   then ''Cannot set timeout without timed discovery.''
                   else ''Cannot set retransmission discovery type.'')), s)"
  using assms
  by (auto simp: connectOrDiscoverNode_def requestedDiscoveryType_def Let_def split: option.splits)

text \<open>
  Claim C5, as amended.  For every call of \<open>connect\<close> on an address for which no channel
  is registered, that requests \<open>RetransmissionDiscovery\<close> or passes \<open>timeoutSeconds\<close> with
  a discovery type other than \<open>TimedDiscovery\<close> (the default, full discovery, included):
  an \<open>ImplementationError\<close> is thrown, unchanged by \<open>#resume\<close>, before any discovery or
  pairing: the state is exactly what the lookup of the cached operational address, which
  \<open>#resume\<close> makes before the options are checked, left (that lookup queries the
  scanner's discovered-device record and may empty its address list); in particular no
  discovery is cancelled or registered, no timer is started, no channel is opened, no
  session or exchange is created, CASE is not run, and neither the managers nor the store
  are written.
\<close>

theorem connect_rejects_configuration_mistakes:
  assumes "channels s addr = None"
    and "discoveryType opts = Some RetransmissionDiscovery
         \<or> (timeoutSeconds opts \<noteq> None \<and> discoveryType opts \<noteq> Some TimedDiscovery)"
  shows "fst (connect ctx addr opts s) =
           Inl (ImplementationError
                  (if timeoutSeconds opts \<noteq> None \<and> discoveryType opts \<noteq> Some TimedDiscovery
                   then ''Cannot set timeout without timed discovery.''
                   else ''Cannot set retransmission discovery type.''))
       \<and> snd (connect ctx addr opts s) = snd (knownOperationalAddressFor ctx addr s)
       \<and> calls (snd (connect ctx addr opts s)) = calls s
       \<and> runningPeerDiscoveries (snd (connect ctx addr opts s)) = runningPeerDiscoveries s
       \<and> snd (connect ctx addr opts s) = s\<lparr>discovered := discovered (snd (connect ctx addr opts s))\<rparr>"
proof -
  obtain oa s1 where k: "knownOperationalAddressFor ctx addr s = (oa, s1)"
    by (cases "knownOperationalAddressFor ctx addr s")
  note c = connectOrDiscoverNode_rejects [OF assms(2), of ctx addr oa s1]
  have "connect ctx addr opts s =
          (Inl (ImplementationError
                  (if timeoutSeconds opts \<noteq> None \<and> discoveryType opts \<noteq> Some TimedDiscovery
                   then ''Cannot set timeout without timed discovery.''
                   else ''Cannot set retransmission discovery type.'')), s1)"
    using assms(1) k c
    by (simp add: connect_def resume_def instanceofDiscoveryError_def
        instanceofNoResponseTimeoutError_def)
  then show ?thesis using k knownOperationalAddressFor_frame [of ctx addr s] by simp
qed

text \<open>
  The theorem at a request for \<open>RetransmissionDiscovery\<close> and at a full request with a
  timeout, on an address with no channel.
\<close>

theorem connect_rejects_configuration_mistakes_witness:
  "channels empty_PeerSet peerA = None
   \<and> discoveryType retransmissionOptions = Some RetransmissionDiscovery
   \<and> fst (connect ctx0 peerA retransmissionOptions empty_PeerSet)
       = Inl (ImplementationError ''Cannot set retransmission discovery type.'')
   \<and> calls (snd (connect ctx0 peerA retransmissionOptions empty_PeerSet)) = []
   \<and> fst (connect ctx0 peerA (fullOptions\<lparr>timeoutSeconds := Some 5\<rparr>) empty_PeerSet)
       = Inl (ImplementationError ''Cannot set timeout without timed discovery.'')"
proof -
  have h1: "channels empty_PeerSet peerA = None" by (simp add: empty_PeerSet_def)
  have h2: "discoveryType retransmissionOptions = Some RetransmissionDiscovery
            \<or> (timeoutSeconds retransmissionOptions \<noteq> None
               \<and> discoveryType retransmissionOptions \<noteq> Some TimedDiscovery)"
    by (simp add: retransmissionOptions_def)
  have h3: "discoveryType (fullOptions\<lparr>timeoutSeconds := Some 5\<rparr>) = Some RetransmissionDiscovery
            \<or> (timeoutSeconds (fullOptions\<lparr>timeoutSeconds := Some 5\<rparr>) \<noteq> None
               \<and> discoveryType (fullOptions\<lparr>timeoutSeconds := Some 5\<rparr>) \<noteq> Some TimedDiscovery)"
    by (simp add: fullOptions_def)
  note a = connect_rejects_configuration_mistakes [OF h1 h2, of ctx0]
  note b = connect_rejects_configuration_mistakes [OF h1 h3, of ctx0]
  show ?thesis
    unfolding a [THEN conjunct1] a [THEN conjunct2, THEN conjunct2, THEN conjunct1]
      b [THEN conjunct1]
    using h1 by (simp add: retransmissionOptions_def fullOptions_def empty_PeerSet_def)
qed

text \<open>
  Claim C5 as stated fails: with a channel registered for the address, \<open>connect\<close> with
  \<open>RetransmissionDiscovery\<close> returns a client on that channel and throws nothing.
\<close>

theorem cached_channel_skips_validation:
  "fst (connect ctx0 peerA retransmissionOptions connected_PeerSet) =
     Inr (Client \<lparr>exchangeChannel = channelA, clientAddress = peerA,
                  cachedData = \<lparr>attributeValues = [], clusterDataVersions = [],
                                maxEventNumber = None\<rparr>\<rparr>)"
  by (simp add: connect_def newInteractionClient_def fixture_defs Let_def)

subsection \<open>Forgetting a peer\<close>

lemma delete_unknown:
  "get peer s = None \<Longrightarrow> delete ctx peer s = (None, s)"
  by (simp add: delete_def)

lemma delete_skips_disconnect:
  assumes "peersByAddress s addr = Some p" and "address p = addr" and "p \<in> set (peers s)"
    and "failing ctx (StoreDeletePeer addr) = None"
    and "failing ctx (DeleteResumptionRecord addr) = None"
  shows "fst (delete ctx (ByAddress addr) s) = None
       \<and> get (ByAddress addr) (snd (delete ctx (ByAddress addr) s)) = None
       \<and> p \<notin> set (peers (snd (delete ctx (ByAddress addr) s)))
       \<and> store (snd (delete ctx (ByAddress addr) s)) addr = None
       \<and> resumptionRecords (snd (delete ctx (ByAddress addr) s)) addr = None
       \<and> channels (snd (delete ctx (ByAddress addr) s)) = channels s
       \<and> sessions (snd (delete ctx (ByAddress addr) s)) = sessions s
       \<and> calls (snd (delete ctx (ByAddress addr) s))
           = calls s @ [StoreDeletePeer addr, DeleteResumptionRecord addr]"
  using assms
  by (simp add: delete_def get_def peers_delete_def deletePeer_def invoke_def disconnect_def
      deleteResumptionRecord_def Let_def)

text \<open>
  Claim C6 fails on the code: \<open>delete\<close> of a known peer with a registered channel and
  session removes the peer from the set, the store and the resumption records, and after
  it \<open>get\<close> yields nothing; but \<open>disconnect\<close>, called after the peer left the set, looks
  the peer up, finds nothing and returns, so the channel and the session stay and
  neither \<open>removeAllSessionsForNode\<close> nor \<open>removeAllNodeChannels\<close> is called.
\<close>

theorem delete_leaves_channels_and_sessions:
  "fst (delete ctx0 (ByAddress peerA) connected_PeerSet) = None
   \<and> get (ByAddress peerA) (snd (delete ctx0 (ByAddress peerA) connected_PeerSet)) = None
   \<and> store (snd (delete ctx0 (ByAddress peerA) connected_PeerSet)) peerA = None
   \<and> resumptionRecords (snd (delete ctx0 (ByAddress peerA) connected_PeerSet)) peerA = None
   \<and> channels (snd (delete ctx0 (ByAddress peerA) connected_PeerSet)) peerA = Some channelA
   \<and> sessions (snd (delete ctx0 (ByAddress peerA) connected_PeerSet)) peerA = [SecureSession 3]
   \<and> calls (snd (delete ctx0 (ByAddress peerA) connected_PeerSet))
        = [StoreDeletePeer peerA, DeleteResumptionRecord peerA]"
  by (simp add: delete_def get_def connected_PeerSet_def empty_PeerSet_def peers_delete_def
      deletePeer_def invoke_def ctx0_def disconnect_def deleteResumptionRecord_def knownPeerA_def
      Let_def)

subsection \<open>Cached operational address\<close>

text \<open>
  Claim C10.  For every peer address: when the scanner holds a discovered-device record
  for it and the peer's last known operational address has the ip and port of one of the
  record's addresses, \<open>#knownOperationalAddressFor\<close> empties the address list of the
  scanner's record and returns undefined; when the record exists and no address matches
  (or no last address is known), it returns the first address of the record (undefined
  for an empty list) and changes nothing; when there is no scanner or no record, it
  returns undefined and changes nothing.
\<close>

theorem knownOperationalAddressFor_cases:
  "(scannerPresent ctx \<and> discovered s (fabricFor ctx addr, nodeId addr) = Some d
      \<and> getLastOperationalAddress addr s = Some l
      \<and> (\<exists>a \<in> set (addresses d). ip a = ip l \<and> port a = port l)
      \<longrightarrow> knownOperationalAddressFor ctx addr s =
            (None, s\<lparr>discovered := (discovered s)((fabricFor ctx addr, nodeId addr) \<mapsto> d\<lparr>addresses := []\<rparr>)\<rparr>))
   \<and> (scannerPresent ctx \<and> discovered s (fabricFor ctx addr, nodeId addr) = Some d
      \<and> \<not> (\<exists>l. getLastOperationalAddress addr s = Some l
               \<and> (\<exists>a \<in> set (addresses d). ip a = ip l \<and> port a = port l))
      \<longrightarrow> knownOperationalAddressFor ctx addr s = (first (addresses d), s))
   \<and> (\<not> scannerPresent ctx \<or> discovered s (fabricFor ctx addr, nodeId addr) = None
      \<longrightarrow> knownOperationalAddressFor ctx addr s = (None, s))"
  by (auto simp: knownOperationalAddressFor_def getDiscoveredOperationalDevice_def first_def
      list_ex_iff Let_def split: option.splits)

text \<open>
  The theorem at a peer whose last known address is the second of the two addresses the
  scanner holds: the list is emptied and nothing is returned.  Without a known peer, the
  first of the two addresses is returned.
\<close>

theorem knownOperationalAddressFor_cases_witness:
  "getLastOperationalAddress peerA cached_PeerSet = Some ipA
   \<and> fst (knownOperationalAddressFor ctx0 peerA cached_PeerSet) = None
   \<and> discovered (snd (knownOperationalAddressFor ctx0 peerA cached_PeerSet)) (1, 2)
       = Some \<lparr>addresses = [], deviceData = \<lparr>SII = None, SAI = None, SAT = None\<rparr>\<rparr>
   \<and> knownOperationalAddressFor ctx0 peerA discovered_PeerSet = (Some ipB, discovered_PeerSet)"
proof -
  let ?d = "\<lparr>addresses = [ipB, ipA], deviceData = \<lparr>SII = None, SAI = None, SAT = None\<rparr>\<rparr>"
  have h1: "scannerPresent ctx0" by (simp add: ctx0_def)
  have h2: "discovered cached_PeerSet (fabricFor ctx0 peerA, nodeId peerA) = Some ?d"
    by (simp add: cached_PeerSet_def empty_PeerSet_def ctx0_def peerA_def)
  have h3: "getLastOperationalAddress peerA cached_PeerSet = Some ipA"
    by (simp add: getLastOperationalAddress_def cached_PeerSet_def empty_PeerSet_def knownPeerA_def)
  have h4: "\<exists>a \<in> set (addresses ?d). ip a = ip ipA \<and> port a = port ipA" by simp
  have g2: "discovered discovered_PeerSet (fabricFor ctx0 peerA, nodeId peerA) = Some ?d"
    by (simp add: discovered_PeerSet_def empty_PeerSet_def ctx0_def peerA_def)
  have g3: "\<not> (\<exists>l. getLastOperationalAddress peerA discovered_PeerSet = Some l
               \<and> (\<exists>a \<in> set (addresses ?d). ip a = ip l \<and> port a = port l))"
    by (simp add: getLastOperationalAddress_def discovered_PeerSet_def empty_PeerSet_def)
  from knownOperationalAddressFor_cases [of ctx0 cached_PeerSet peerA ?d ipA] h1 h2 h3 h4
  have a: "knownOperationalAddressFor ctx0 peerA cached_PeerSet =
            (None, cached_PeerSet\<lparr>discovered := (discovered cached_PeerSet)
                ((fabricFor ctx0 peerA, nodeId peerA) \<mapsto> ?d\<lparr>addresses := []\<rparr>)\<rparr>)"
    by blast
  from knownOperationalAddressFor_cases [of ctx0 discovered_PeerSet peerA ?d] h1 g2 g3
  have b: "knownOperationalAddressFor ctx0 peerA discovered_PeerSet
             = (first (addresses ?d), discovered_PeerSet)"
    by blast
  show ?thesis unfolding a b using h3 by (simp add: first_def ctx0_def peerA_def)
qed

end
